theory Spec2Isabelle
  imports Main
begin

section \<open>Data model of \<open>internal/server/core.go\<close>\<close>

text \<open>
  Go strings are modelled as \<open>string\<close>, Go \<open>error\<close> values by their message, and a
  \<open>nil\<close> error or pointer by \<open>None\<close>. The field \<open>FormData\<close> has the Go type
  \<open>interface{}\<close>: any value or \<open>nil\<close>; the type parameter \<open>'f\<close> stands for the values
  that can be put there.
\<close>

type_synonym err = string

definition SessionIdentifier :: string where
  "SessionIdentifier = ''wgPortalSession''"

record 'f SessionData =
  LoggedIn :: bool
  IsAdmin :: bool
  UID :: string
  UserName :: string
  Firstname :: string
  Lastname :: string
  Email :: string
  SortedBy :: string
  SortDirection :: string
  Search :: string
  AlertData :: string
  AlertType :: string
  FormData :: "'f option"

record FlashData =
  HasAlert :: bool
  Message :: string
  Type :: string

section \<open>\<open>SessionData.GetSortIcon\<close>\<close>

definition GetSortIcon :: "'f SessionData \<Rightarrow> string \<Rightarrow> string" where
  "GetSortIcon s field =
     (if SortedBy s \<noteq> field then ''fa-sort''
      else if SortDirection s = ''asc'' then ''fa-sort-alpha-down''
      else ''fa-sort-alpha-up'')"

section \<open>The session of a request\<close>

text \<open>
  The values a session holds have the Go type \<open>interface{}\<close>. The program stores
  \<open>SessionData\<close> under \<open>SessionIdentifier\<close> and \<open>FlashData\<close> as flashes; \<open>VOther\<close> is
  any other value. A type assertion \<open>x.(T)\<close> on a value of another type panics.
\<close>

datatype 'f val = VSessionData "'f SessionData" | VFlashData FlashData | VOther 'f

datatype fault = TypeAssertionPanic | NilPointerPanic

datatype level = DebugLevel | InfoLevel | WarnLevel | ErrorLevel

datatype call = CallGet string | CallSet string | CallDelete string
  | CallFlashes | CallAddFlash | CallSave

text \<open>
  Modelled from the spec: the session object \<open>sessions.Default(c)\<close> of the library
  \<open>gin-contrib/sessions\<close> and its backing store are not among the sources (the spec
  lists the session storage mechanics as an external collaborator). The record holds
  what the program can observe of one request context \<open>c\<close>:
  \<^item> \<open>Values\<close>: the key/value pairs of the session object (\<open>None\<close> is Go's \<open>nil\<close>);
  \<^item> \<open>FlashValues\<close>: the flashes of the session object, oldest first;
  \<^item> \<open>written\<close>: the library's flag that the session object has unsaved changes;
  \<^item> \<open>StoredValues\<close>, \<open>StoredFlashes\<close>: what the backing store holds for the session;
  \<^item> \<open>calls\<close>: the calls made on the session object, oldest first;
  \<^item> \<open>logged\<close>: the lines written to the logger, oldest first.
\<close>

record 'f Context =
  Values :: "string \<rightharpoonup> 'f val"
  FlashValues :: "'f val list"
  written :: bool
  StoredValues :: "string \<rightharpoonup> 'f val"
  StoredFlashes :: "'f val list"
  calls :: "call list"
  logged :: "(level \<times> string) list"

text \<open>Modelled from the spec: \<open>session.Get(key)\<close> reads a value and changes nothing.\<close>

definition sessGet :: "string \<Rightarrow> 'f Context \<Rightarrow> 'f val option \<times> 'f Context" where
  "sessGet key c = (Values c key, c\<lparr>calls := calls c @ [CallGet key]\<rparr>)"

text \<open>Modelled from the spec: \<open>session.Set(key, val)\<close> stores a value in the session object.\<close>

definition sessSet :: "string \<Rightarrow> 'f val \<Rightarrow> 'f Context \<Rightarrow> 'f Context" where
  "sessSet key v c =
     c\<lparr>Values := (Values c)(key \<mapsto> v), written := True, calls := calls c @ [CallSet key]\<rparr>"

text \<open>Modelled from the spec: \<open>session.Delete(key)\<close> removes a key from the session object.\<close>

definition sessDelete :: "string \<Rightarrow> 'f Context \<Rightarrow> 'f Context" where
  "sessDelete key c =
     c\<lparr>Values := (Values c)(key := None), written := True, calls := calls c @ [CallDelete key]\<rparr>"

text \<open>
  Modelled from the spec: \<open>session.Flashes()\<close> returns the flashes and removes them from
  the session object the moment they are read (the spec's "show once" contract).
\<close>

definition sessFlashes :: "'f Context \<Rightarrow> 'f val list \<times> 'f Context" where
  "sessFlashes c =
     (FlashValues c, c\<lparr>FlashValues := [], written := True, calls := calls c @ [CallFlashes]\<rparr>)"

text \<open>Modelled from the spec: \<open>session.AddFlash(v)\<close> appends a flash to the session object.\<close>

definition sessAddFlash :: "'f val \<Rightarrow> 'f Context \<Rightarrow> 'f Context" where
  "sessAddFlash v c =
     c\<lparr>FlashValues := FlashValues c @ [v], written := True, calls := calls c @ [CallAddFlash]\<rparr>"

text \<open>
  Modelled from the spec: \<open>session.Save()\<close> writes the session object to the backing
  store when it has unsaved changes. The argument \<open>r\<close> is the answer of the backing store
  to this call: \<open>None\<close> when it stores the session, \<open>Some e\<close> when it fails with \<open>e\<close>, and
  then nothing is stored.
\<close>

definition sessSave :: "err option \<Rightarrow> 'f Context \<Rightarrow> err option \<times> 'f Context" where
  "sessSave r c =
     (let c1 = c\<lparr>calls := calls c @ [CallSave]\<rparr> in
      if written c1 then
        (case r of
           None \<Rightarrow> (None, c1\<lparr>StoredValues := Values c1, StoredFlashes := FlashValues c1,
                             written := False\<rparr>)
         | Some e \<Rightarrow> (Some e, c1))
      else (None, c1))"

definition logf :: "level \<Rightarrow> string \<Rightarrow> 'f Context \<Rightarrow> 'f Context" where
  "logf l msg c = c\<lparr>logged := logged c @ [(l, msg)]\<rparr>"

section \<open>The session operations of the server\<close>

text \<open>
  Each operation takes the request context and, last, the answer \<open>r\<close> of the backing
  store to the one \<open>session.Save()\<close> the operation makes. The receiver \<open>s\<close> is not used
  by these methods.
\<close>

definition getSessionData :: "'f Context \<Rightarrow> err option \<Rightarrow> fault + ('f SessionData \<times> 'f Context)" where
  "getSessionData c r =
     (let (rawSessionData, c1) = sessGet SessionIdentifier c in
      case rawSessionData of
        Some v \<Rightarrow>
          (case v of
             VSessionData sessionData \<Rightarrow> Inr (sessionData, c1)
           | _ \<Rightarrow> Inl TypeAssertionPanic)
      | None \<Rightarrow>
          (let sessionData = \<lparr>LoggedIn = False, IsAdmin = False, UID = '''', UserName = '''',
                 Firstname = '''', Lastname = '''', Email = '''', SortedBy = ''mail'',
                 SortDirection = ''asc'', Search = '''', AlertData = '''', AlertType = '''',
                 FormData = None\<rparr>;
               c2 = sessSet SessionIdentifier (VSessionData sessionData) c1;
               (e, c3) = sessSave r c2
           in Inr (sessionData,
                case e of
                  Some m \<Rightarrow> logf ErrorLevel (''Failed to store session: '' @ m) c3
                | None \<Rightarrow> c3)))"

text \<open>The loop of \<open>getFlashes\<close>: \<open>flashData[i] = flashes[i].(FlashData)\<close> for every index.\<close>

fun assertFlashData :: "'f val list \<Rightarrow> fault + FlashData list" where
  "assertFlashData [] = Inr []"
| "assertFlashData (v # vs) =
     (case v of
        VFlashData fd \<Rightarrow>
          (case assertFlashData vs of Inl p \<Rightarrow> Inl p | Inr fds \<Rightarrow> Inr (fd # fds))
      | _ \<Rightarrow> Inl TypeAssertionPanic)"

definition getFlashes :: "'f Context \<Rightarrow> err option \<Rightarrow> fault + (FlashData list \<times> 'f Context)" where
  "getFlashes c r =
     (let (flashes, c1) = sessFlashes c;
          (e, c2) = sessSave r c1;
          c3 = (case e of
                  Some m \<Rightarrow> logf ErrorLevel
                              (''Failed to store session after setting flash: '' @ m) c2
                | None \<Rightarrow> c2)
      in case assertFlashData flashes of
           Inl p \<Rightarrow> Inl p
         | Inr flashData \<Rightarrow> Inr (flashData, c3))"

definition updateSessionData :: "'f Context \<Rightarrow> 'f SessionData \<Rightarrow> err option \<Rightarrow> err option \<times> 'f Context" where
  "updateSessionData c data r =
     (let c1 = sessSet SessionIdentifier (VSessionData data) c;
          (e, c2) = sessSave r c1
      in case e of
           Some m \<Rightarrow> (Some m, logf ErrorLevel (''Failed to store session: '' @ m) c2)
         | None \<Rightarrow> (None, c2))"

definition destroySessionData :: "'f Context \<Rightarrow> err option \<Rightarrow> err option \<times> 'f Context" where
  "destroySessionData c r =
     (let c1 = sessDelete SessionIdentifier c;
          (e, c2) = sessSave r c1
      in case e of
           Some m \<Rightarrow> (Some m, logf ErrorLevel (''Failed to destroy session: '' @ m) c2)
         | None \<Rightarrow> (None, c2))"

definition setFlashMessage :: "'f Context \<Rightarrow> string \<Rightarrow> string \<Rightarrow> err option \<Rightarrow> 'f Context" where
  "setFlashMessage c message typ r =
     (let c1 = sessAddFlash (VFlashData \<lparr>HasAlert = False, Message = message, Type = typ\<rparr>) c;
          (e, c2) = sessSave r c1
      in case e of
           Some m \<Rightarrow> logf ErrorLevel (''Failed to store session after setting flash: '' @ m) c2
         | None \<Rightarrow> c2)"

text \<open>A request context whose session is new: nothing set, nothing stored.\<close>

definition freshContext :: "'f Context" where
  "freshContext = \<lparr>Values = Map.empty, FlashValues = [], written = False,
     StoredValues = Map.empty, StoredFlashes = [], calls = [], logged = []\<rparr>"

text \<open>
  Modelled from the spec: a later request of the same session gets a session object
  that the library reads from the backing store: it holds what the store holds and has
  no unsaved change. The store, the calls and the log go on.
\<close>

definition reloadSession :: "'f Context \<Rightarrow> 'f Context" where
  "reloadSession c =
     c\<lparr>Values := StoredValues c, FlashValues := StoredFlashes c, written := False\<rparr>"

section \<open>The server: \<open>Setup\<close> and \<open>Run\<close>\<close>

text \<open>
  \<open>time.Duration\<close> counts nanoseconds in an \<open>int64\<close>; the two constants below are far
  from its bounds.
\<close>

definition Minute :: int where
  "Minute = 60 * 1000000000"

definition CacheRefreshDuration :: int where
  "CacheRefreshDuration = 5 * Minute"

text \<open>The part of \<open>common.Config\<close> that this file reads (\<open>s.config.Core\<close>).\<close>

record Config =
  DatabasePath :: string
  ListeningAddress :: string
  SyncLdapStatus :: bool
  Title :: string
  CompanyName :: string

text \<open>
  The components the server points to are values of other packages; \<open>Component\<close> stands
  for such a value, and a \<open>nil\<close> pointer is \<open>None\<close>.
\<close>

datatype component = Component

record Server =
  config :: "Config option"
  server :: "component option"
  users :: "component option"
  mailTpl :: "component option"
  wg :: "component option"
  ldapDisabled :: bool
  ldapAuth :: "component option"
  ldapUsers :: "component option"
  ldapCacheUpdater :: "component option"

text \<open>The two goroutines that \<open>Run\<close> starts.\<close>

datatype task = LdapGroupWatcher | LdapAttributeSync

text \<open>
  What the server does to the world outside this file, one event per call, in the
  order of the calls. \<open>Logf\<close> carries the level, the format and the arguments; \<open>Go\<close> is
  a \<open>go\<close> statement; every other event is a call that has returned when the next
  event happens.
\<close>

datatype event =
    Logf level string "string list"
  | RandSeed
  | NewConfig
  | NewAuthentication
  | UserCacheHolderInit
  | NewUserCache
  | WgInit
  | NewUserManager string
  | InitFromCurrentInterface
  | RestoreWireGuardInterface
  | ParseMailTemplate string
  | NewHttpServer
  | LoadHTMLGlob string
  | UseSessions
  | Static string string
  | SetupRoutes
  | Go task
  | Sleep int
  | LdapCacheUpdate bool bool
  | SyncLdapAttributesWithWireGuard
  | ServerRun string

text \<open>
  The answers of the world to the calls of \<open>Setup\<close>: the result of
  \<open>filepath.Abs(filepath.Dir(os.Args[0]))\<close>, whether \<open>os.Stat\<close> finds no \<open>assets\<close>
  directory, \<open>filepath.Join\<close>, the configuration that \<open>common.NewConfig\<close> returns,
  \<open>LastError\<close> of the new LDAP user cache, the error of \<open>s.wg.Init()\<close>, whether
  \<open>NewUserManager\<close> returns \<open>nil\<close>, and the errors of
  \<open>s.users.InitFromCurrentInterface()\<close>, \<open>s.RestoreWireGuardInterface()\<close> and of
  parsing the mail template.
\<close>

record SetupEnv =
  absExecutable :: "string \<times> err option"
  assetsNotExist :: bool
  pathJoin :: "string \<Rightarrow> string \<Rightarrow> string"
  newConfig :: Config
  ldapLastError :: "err option"
  wgInitResult :: "err option"
  userManagerNil :: bool
  initFromCurrentInterfaceResult :: "err option"
  restoreWireGuardInterfaceResult :: "err option"
  parseMailTemplateResult :: "err option"

definition getExecutableDirectory :: "SetupEnv \<Rightarrow> string \<times> event list" where
  "getExecutableDirectory env =
     (let (dir, err) = absExecutable env;
          ev = (case err of
                  Some m \<Rightarrow> [Logf ErrorLevel ''Failed to get executable directory: %v'' [m]]
                | None \<Rightarrow> [])
      in if assetsNotExist env then (''.'', ev) else (dir, ev))"

text \<open>\<open>Setup\<close> up to the WireGuard manager: configuration and LDAP.\<close>

definition SetupLdap :: "Server \<Rightarrow> SetupEnv \<Rightarrow> string \<times> Server \<times> event list" where
  "SetupLdap s env =
     (let (dir, ev0) = getExecutableDirectory env;
          rDir = fst (absExecutable env);
          ev1 = ev0 @ [Logf InfoLevel ''Real working directory: %s'' [rDir],
                       Logf InfoLevel ''Current working directory: %s'' [dir],
                       RandSeed, NewConfig];
          s1 = s\<lparr>config := Some (newConfig env)\<rparr>;
          ev2 = ev1 @ [NewAuthentication, UserCacheHolderInit, NewUserCache];
          s2 = s1\<lparr>ldapAuth := Some Component, ldapUsers := Some Component,
                  ldapCacheUpdater := Some Component\<rparr>
      in case ldapLastError env of
           Some m \<Rightarrow>
             (dir, s2\<lparr>ldapDisabled := True\<rparr>,
              ev2 @ [Logf WarnLevel ''LDAP error: %v'' [m],
                     Logf WarnLevel ''LDAP features disabled!'' []])
         | None \<Rightarrow> (dir, s2, ev2))"

text \<open>\<open>Setup\<close> after the last point where it can fail: HTTP server, templates, routes.\<close>

definition SetupHttp :: "string \<Rightarrow> Server \<Rightarrow> SetupEnv \<Rightarrow> Server \<times> event list" where
  "SetupHttp dir s env =
     (s\<lparr>server := Some Component\<rparr>,
      [NewHttpServer,
       Logf InfoLevel ''Loading templates from: %s'' [pathJoin env dir ''/assets/tpl/*.html''],
       LoadHTMLGlob (pathJoin env dir ''/assets/tpl/*.html''),
       UseSessions,
       Static ''/css'' (pathJoin env dir ''/assets/css''),
       Static ''/js'' (pathJoin env dir ''/assets/js''),
       Static ''/img'' (pathJoin env dir ''/assets/img''),
       Static ''/fonts'' (pathJoin env dir ''/assets/fonts''),
       SetupRoutes,
       Logf InfoLevel ''Setup of service completed!'' []])"

text \<open>
  \<open>Setup\<close> returns its error (\<open>None\<close> is \<open>nil\<close>), the server as it leaves it and the
  events in the order they happened. Every \<open>return\<close> of the source is one branch.
\<close>

definition Setup :: "Server \<Rightarrow> SetupEnv \<Rightarrow> err option \<times> Server \<times> event list" where
  "Setup s env =
     (let (dir, s2, ev2) = SetupLdap s env;
          s3 = s2\<lparr>wg := Some Component\<rparr>;
          ev3 = ev2 @ [WgInit]
      in case wgInitResult env of
           Some m \<Rightarrow> (Some m, s3, ev3)
         | None \<Rightarrow>
      (let ev4 = ev3 @ [NewUserManager (pathJoin env dir (DatabasePath (newConfig env)))]
       in if userManagerNil env then
            (Some ''unable to setup user manager'', s3\<lparr>users := None\<rparr>, ev4)
          else
      (let s4 = s3\<lparr>users := Some Component\<rparr>;
           ev5 = ev4 @ [InitFromCurrentInterface]
       in if initFromCurrentInterfaceResult env \<noteq> None then
            (Some ''unable to initialize user manager'', s4, ev5)
          else
      (let ev6 = ev5 @ [RestoreWireGuardInterface]
       in if restoreWireGuardInterfaceResult env \<noteq> None then
            (Some ''unable to restore WireGuard state'', s4, ev6)
          else
      (let ev7 = ev6 @ [ParseMailTemplate (pathJoin env dir ''/assets/tpl/email.html'')]
       in case parseMailTemplateResult env of
            Some m \<Rightarrow> (Some ''unable to pare mail template'', s4\<lparr>mailTpl := None\<rparr>, ev7)
          | None \<Rightarrow>
      (let s5 = s4\<lparr>mailTpl := Some Component\<rparr>;
           (s6, ev8) = SetupHttp dir s5 env
       in (None, s6, ev7 @ ev8)))))))"

text \<open>
  The body of the first goroutine of \<open>Run\<close>, a \<open>for\<close> without condition, \<open>break\<close> or
  \<open>return\<close>. The argument lists the results of the successive calls of
  \<open>s.ldapCacheUpdater.Update(true, true)\<close>; the value is the events of the goroutine
  up to the end of the iteration that receives the last of them.
\<close>

fun ldapGroupWatcher :: "err option list \<Rightarrow> event list" where
  "ldapGroupWatcher [] = []"
| "ldapGroupWatcher (r # rs) =
     [Sleep CacheRefreshDuration, LdapCacheUpdate True True]
     @ (case r of
          Some m \<Rightarrow> [Logf WarnLevel ''Failed to update ldap group cache: %v'' [m]]
        | None \<Rightarrow> [])
     @ [Logf DebugLevel ''Refreshed LDAP permissions!'' []]
     @ ldapGroupWatcher rs"

text \<open>
  The body of the second goroutine, in the same way, over the results of the
  successive calls of \<open>s.SyncLdapAttributesWithWireGuard()\<close>.
\<close>

fun ldapAttributeSync :: "err option list \<Rightarrow> event list" where
  "ldapAttributeSync [] = []"
| "ldapAttributeSync (r # rs) =
     [Sleep CacheRefreshDuration, SyncLdapAttributesWithWireGuard]
     @ (case r of
          Some m \<Rightarrow> [Logf WarnLevel ''Failed to synchronize ldap attributes: %v'' [m]]
        | None \<Rightarrow> [])
     @ [Logf DebugLevel ''Synced LDAP attributes!'' []]
     @ ldapAttributeSync rs"

text \<open>
  \<open>Run\<close> on the main goroutine: the goroutines it starts and the web service. The
  argument \<open>r\<close> is the error with which \<open>s.server.Run\<close> returns. Reading \<open>s.config\<close> or
  running \<open>s.server\<close> when it is \<open>nil\<close> panics; the events before the panic have
  happened. \<open>syncLdapStatus\<close> is the read of \<open>s.config.Core.SyncLdapStatus\<close>, which
  \<open>&&\<close> makes only when LDAP is not disabled.
\<close>

definition syncLdapStatus :: "Server \<Rightarrow> fault + bool" where
  "syncLdapStatus s =
     (case config s of
        None \<Rightarrow> Inl NilPointerPanic
      | Some cfg \<Rightarrow> Inr (SyncLdapStatus cfg))"

definition Run :: "Server \<Rightarrow> err option \<Rightarrow> fault option \<times> event list" where
  "Run s r =
     (let ev1 = (if \<not> ldapDisabled s then [Go LdapGroupWatcher] else [])
      in case (if \<not> ldapDisabled s then syncLdapStatus s else Inr False) of
           Inl p \<Rightarrow> (Some p, ev1)
         | Inr sync \<Rightarrow>
      (let ev2 = ev1 @ (if sync then [Go LdapAttributeSync] else [])
       in case config s of
            None \<Rightarrow> (Some NilPointerPanic, ev2)
          | Some cfg \<Rightarrow>
              (if server s = None then (Some NilPointerPanic, ev2)
               else
                 (None,
                  ev2 @ [ServerRun (ListeningAddress cfg)]
                  @ (case r of
                       Some m \<Rightarrow> [Logf ErrorLevel ''Failed to listen and serve on %s: %v''
                                    [ListeningAddress cfg, m]]
                     | None \<Rightarrow> [])))))"

text \<open>The tasks started in a sequence of events, and how often an event occurs.\<close>

fun startedTasks :: "event list \<Rightarrow> task list" where
  "startedTasks [] = []"
| "startedTasks (Go t # evs) = t # startedTasks evs"
| "startedTasks (_ # evs) = startedTasks evs"

fun sleeps :: "event list \<Rightarrow> int list" where
  "sleeps [] = []"
| "sleeps (Sleep d # evs) = d # sleeps evs"
| "sleeps (_ # evs) = sleeps evs"

text \<open>The zero value \<open>Server{}\<close>.\<close>

definition zeroServer :: Server where
  "zeroServer = \<lparr>config = None, server = None, users = None, mailTpl = None, wg = None,
     ldapDisabled = False, ldapAuth = None, ldapUsers = None, ldapCacheUpdater = None\<rparr>"

section \<open>Concrete inputs\<close>

text \<open>A configuration and a world in which every step of \<open>Setup\<close> succeeds.\<close>

definition sampleConfig :: Config where
  "sampleConfig = \<lparr>DatabasePath = ''data/wg_portal.db'', ListeningAddress = '':8123'',
     SyncLdapStatus = True, Title = ''WireGuard VPN'', CompanyName = ''WireGuard Portal''\<rparr>"

definition sampleEnv :: SetupEnv where
  "sampleEnv = \<lparr>absExecutable = (''/opt/wg-portal'', None), assetsNotExist = False,
     pathJoin = (\<lambda>a b. a @ b), newConfig = sampleConfig, ldapLastError = None,
     wgInitResult = None, userManagerNil = False, initFromCurrentInterfaceResult = None,
     restoreWireGuardInterfaceResult = None, parseMailTemplateResult = None\<rparr>"

text \<open>The session record of a logged-in administrator who sorts by name, descending.\<close>

definition adminSession :: "unit SessionData" where
  "adminSession = \<lparr>LoggedIn = True, IsAdmin = True, UID = ''uid1'', UserName = ''admin'',
     Firstname = ''Ada'', Lastname = ''Admin'', Email = ''admin@example.com'',
     SortedBy = ''name'', SortDirection = ''desc'', Search = '''', AlertData = '''',
     AlertType = '''', FormData = None\<rparr>"

text \<open>The record that \<open>getSessionData\<close> builds for a new session, and an alert.\<close>

definition defaultSession :: "unit SessionData" where
  "defaultSession = \<lparr>LoggedIn = False, IsAdmin = False, UID = '''', UserName = '''',
     Firstname = '''', Lastname = '''', Email = '''', SortedBy = ''mail'',
     SortDirection = ''asc'', Search = '''', AlertData = '''', AlertType = '''',
     FormData = None\<rparr>"

definition savedAlert :: FlashData where
  "savedAlert = \<lparr>HasAlert = False, Message = ''peer saved'', Type = ''success''\<rparr>"

section \<open>Lemmas on events\<close>

lemmas sess_defs = sessGet_def sessSet_def sessDelete_def sessFlashes_def sessAddFlash_def
  sessSave_def logf_def

lemmas setup_defs = Setup_def SetupLdap_def SetupHttp_def getExecutableDirectory_def

lemmas sample_defs = sampleEnv_def sampleConfig_def zeroServer_def

lemma startedTasks_append: "startedTasks (xs @ ys) = startedTasks xs @ startedTasks ys"
  by (induction xs rule: startedTasks.induct) simp_all

lemma sleeps_append: "sleeps (xs @ ys) = sleeps xs @ sleeps ys"
  by (induction xs rule: sleeps.induct) simp_all

lemma startedTasks_Nil_iff: "startedTasks evs = [] \<longleftrightarrow> (\<forall>t. Go t \<notin> set evs)"
  by (induction evs rule: startedTasks.induct) auto

lemma ldapGroupWatcher_append:
  "ldapGroupWatcher (xs @ ys) = ldapGroupWatcher xs @ ldapGroupWatcher ys"
  by (induction xs) simp_all

lemma ldapGroupWatcher_updates:
  "count_list (ldapGroupWatcher xs) (LdapCacheUpdate True True) = length xs"
  by (induction xs) (simp_all split: option.splits)

lemma ldapGroupWatcher_sleeps:
  "sleeps (ldapGroupWatcher xs) = replicate (length xs) CacheRefreshDuration"
  by (induction xs) (simp_all add: sleeps_append split: option.splits)

lemma ldapAttributeSync_append:
  "ldapAttributeSync (xs @ ys) = ldapAttributeSync xs @ ldapAttributeSync ys"
  by (induction xs) simp_all

lemma ldapAttributeSync_syncs:
  "count_list (ldapAttributeSync xs) SyncLdapAttributesWithWireGuard = length xs"
  by (induction xs) (simp_all split: option.splits)

lemma ldapAttributeSync_sleeps:
  "sleeps (ldapAttributeSync xs) = replicate (length xs) CacheRefreshDuration"
  by (induction xs) (simp_all add: sleeps_append split: option.splits)

text \<open>The first part of \<open>Setup\<close> makes none of the later calls and leaves the later fields.\<close>

lemma SetupLdap_events:
  "SetupLdap s env = (dir, s2, ev2) \<Longrightarrow>
     RestoreWireGuardInterface \<notin> set ev2 \<and> (\<forall>p. ParseMailTemplate p \<notin> set ev2) \<and>
     NewHttpServer \<notin> set ev2 \<and> SetupRoutes \<notin> set ev2 \<and>
     (\<forall>a. ServerRun a \<notin> set ev2) \<and> (\<forall>t. Go t \<notin> set ev2) \<and>
     mailTpl s2 = mailTpl s \<and> server s2 = server s"
  by (auto simp add: SetupLdap_def getExecutableDirectory_def Let_def
      split: prod.splits option.splits if_splits)

lemma SetupHttp_events:
  "RestoreWireGuardInterface \<notin> set (snd (SetupHttp dir s env)) \<and>
   (\<forall>a. ServerRun a \<notin> set (snd (SetupHttp dir s env))) \<and>
   (\<forall>t. Go t \<notin> set (snd (SetupHttp dir s env)))"
  by (simp add: SetupHttp_def)

lemma Run_events: "RestoreWireGuardInterface \<notin> set (snd (Run s r))"
  by (auto simp add: Run_def syncLdapStatus_def Let_def split: option.splits sum.splits if_splits)

text \<open>
  The events of \<open>Setup\<close> after its first part: all of them when it returns \<open>nil\<close>, and a
  prefix that ends at the failing call when it returns an error.
\<close>

lemma Setup_events_cases:
  assumes L: "SetupLdap s env = (dir, s2, ev2)"
  shows "(fst (Setup s env) = None \<and>
          snd (snd (Setup s env)) =
            (ev2 @ [WgInit, NewUserManager (pathJoin env dir (DatabasePath (newConfig env))),
                    InitFromCurrentInterface])
            @ RestoreWireGuardInterface
            # (ParseMailTemplate (pathJoin env dir ''/assets/tpl/email.html'')
               # snd (SetupHttp dir (s2\<lparr>wg := Some Component, users := Some Component,
                                         mailTpl := Some Component\<rparr>) env)))
       \<or> (fst (Setup s env) \<noteq> None \<and>
           (\<exists>mid. snd (snd (Setup s env)) = ev2 @ mid \<and>
              mid \<in> {[WgInit],
                      [WgInit, NewUserManager (pathJoin env dir (DatabasePath (newConfig env)))],
                      [WgInit, NewUserManager (pathJoin env dir (DatabasePath (newConfig env))),
                       InitFromCurrentInterface],
                      [WgInit, NewUserManager (pathJoin env dir (DatabasePath (newConfig env))),
                       InitFromCurrentInterface, RestoreWireGuardInterface],
                      [WgInit, NewUserManager (pathJoin env dir (DatabasePath (newConfig env))),
                       InitFromCurrentInterface, RestoreWireGuardInterface,
                       ParseMailTemplate (pathJoin env dir ''/assets/tpl/email.html'')]}))"
  by (cases "wgInitResult env"; cases "parseMailTemplateResult env")
     (auto simp add: Setup_def L Let_def split: prod.splits)

section \<open>Startup\<close>

text \<open>
  C1: when \<open>RestoreWireGuardInterface\<close> returns a non-nil error, \<open>Setup\<close> returns a non-nil
  error and performs none of the later steps: the mail template is not parsed, the HTTP
  server is not constructed, the routes are not set up, and the fields \<open>mailTpl\<close> and
  \<open>server\<close> stay as they were. In the executions that reach the call, the call is the
  last event and the error is \<open>unable to restore WireGuard state\<close>.
\<close>

theorem Setup_restore_failure:
  assumes "restoreWireGuardInterfaceResult env \<noteq> None"
  shows "\<exists>m s' evs. Setup s env = (Some m, s', evs) \<and>
     mailTpl s' = mailTpl s \<and> server s' = server s \<and>
     (\<forall>p. ParseMailTemplate p \<notin> set evs) \<and> NewHttpServer \<notin> set evs \<and>
     SetupRoutes \<notin> set evs \<and>
     (RestoreWireGuardInterface \<in> set evs \<longrightarrow>
        m = ''unable to restore WireGuard state'' \<and> last evs = RestoreWireGuardInterface)"
proof -
  obtain dir s2 ev2 where L: "SetupLdap s env = (dir, s2, ev2)"
    by (cases "SetupLdap s env") auto
  note E = SetupLdap_events [OF L]
  show ?thesis
    using assms E
    by (cases "wgInitResult env") (auto simp add: Setup_def L Let_def)
qed

theorem Setup_restore_failure_witness:
  "restoreWireGuardInterfaceResult
     (sampleEnv\<lparr>restoreWireGuardInterfaceResult := Some ''device not found''\<rparr>) \<noteq> None \<and>
   fst (Setup zeroServer
     (sampleEnv\<lparr>restoreWireGuardInterfaceResult := Some ''device not found''\<rparr>))
     = Some ''unable to restore WireGuard state'' \<and>
   RestoreWireGuardInterface \<in> set (snd (snd (Setup zeroServer
     (sampleEnv\<lparr>restoreWireGuardInterfaceResult := Some ''device not found''\<rparr>)))) \<and>
   SetupRoutes \<notin> set (snd (snd (Setup zeroServer
     (sampleEnv\<lparr>restoreWireGuardInterfaceResult := Some ''device not found''\<rparr>)))) \<and>
   server (fst (snd (Setup zeroServer
     (sampleEnv\<lparr>restoreWireGuardInterfaceResult := Some ''device not found''\<rparr>)))) = None"
proof -
  let ?env = "sampleEnv\<lparr>restoreWireGuardInterfaceResult := Some ''device not found''\<rparr>"
  have h: "restoreWireGuardInterfaceResult ?env \<noteq> None"
    by simp
  have called: "RestoreWireGuardInterface \<in> set (snd (snd (Setup zeroServer ?env)))"
    by (simp add: setup_defs sample_defs)
  have z: "server zeroServer = None"
    by (simp add: zeroServer_def)
  from Setup_restore_failure [OF h, of zeroServer] called z h show ?thesis
    by auto
qed

text \<open>
  C5: \<open>RestoreWireGuardInterface\<close> is called by \<open>Setup\<close>, as an ordinary call, at most once,
  and exactly once when \<open>Setup\<close> returns \<open>nil\<close>; \<open>Setup\<close> starts no goroutine and does not
  run the web service; \<open>Run\<close> does not call it. So in the events of a successful \<open>Setup\<close>
  followed by \<open>Run\<close> the call occurs exactly once, and before every start of a
  background task and before the web service runs.
\<close>

theorem restore_once_before_Run:
  "count_list (snd (snd (Setup s env))) RestoreWireGuardInterface \<le> 1 \<and>
   startedTasks (snd (snd (Setup s env))) = [] \<and>
   (\<forall>a. ServerRun a \<notin> set (snd (snd (Setup s env)))) \<and>
   RestoreWireGuardInterface \<notin> set (snd (Run s' r)) \<and>
   (fst (Setup s env) = None \<longrightarrow>
      count_list (snd (snd (Setup s env))) RestoreWireGuardInterface = 1 \<and>
      (\<exists>pre post.
         snd (snd (Setup s env)) @ snd (Run (fst (snd (Setup s env))) r)
           = pre @ RestoreWireGuardInterface # post \<and>
         RestoreWireGuardInterface \<notin> set pre \<and> RestoreWireGuardInterface \<notin> set post \<and>
         startedTasks pre = [] \<and> (\<forall>a. ServerRun a \<notin> set pre)))"
proof -
  obtain dir s2 ev2 where L: "SetupLdap s env = (dir, s2, ev2)"
    by (cases "SetupLdap s env") auto
  let ?http = "snd (SetupHttp dir (s2\<lparr>wg := Some Component, users := Some Component,
      mailTpl := Some Component\<rparr>) env)"
  note E = SetupLdap_events [OF L]
  note H = SetupHttp_events [of dir "s2\<lparr>wg := Some Component, users := Some Component,
      mailTpl := Some Component\<rparr>" env]
  note C = Setup_events_cases [OF L]
  from E have c0: "count_list ev2 RestoreWireGuardInterface = 0"
    by (simp add: count_list_0_iff)
  from E have t0: "startedTasks ev2 = []"
    by (simp add: startedTasks_Nil_iff)
  from H have ch: "count_list ?http RestoreWireGuardInterface = 0"
    by (simp add: count_list_0_iff)
  from H have th: "startedTasks ?http = []"
    by (simp add: startedTasks_Nil_iff)
  have 1: "count_list (snd (snd (Setup s env))) RestoreWireGuardInterface \<le> 1"
    using C c0 ch by auto
  have 2: "startedTasks (snd (snd (Setup s env))) = []"
    using C t0 th by (auto simp add: startedTasks_append)
  have 3: "\<forall>a. ServerRun a \<notin> set (snd (snd (Setup s env)))"
    using C E H by auto
  have 4: "RestoreWireGuardInterface \<notin> set (snd (Run s' r))"
    by (rule Run_events)
  have 5: "count_list (snd (snd (Setup s env))) RestoreWireGuardInterface = 1"
    if "fst (Setup s env) = None"
    using C c0 ch that by auto
  have 6: "\<exists>pre post.
         snd (snd (Setup s env)) @ snd (Run (fst (snd (Setup s env))) r)
           = pre @ RestoreWireGuardInterface # post \<and>
         RestoreWireGuardInterface \<notin> set pre \<and> RestoreWireGuardInterface \<notin> set post \<and>
         startedTasks pre = [] \<and> (\<forall>a. ServerRun a \<notin> set pre)"
    if ok: "fst (Setup s env) = None"
  proof -
    let ?pre = "ev2 @ [WgInit, NewUserManager (pathJoin env dir (DatabasePath (newConfig env))),
                    InitFromCurrentInterface]"
    let ?post = "(ParseMailTemplate (pathJoin env dir ''/assets/tpl/email.html'') # ?http)
               @ snd (Run (fst (snd (Setup s env))) r)"
    from C ok have eq: "snd (snd (Setup s env)) @ snd (Run (fst (snd (Setup s env))) r)
        = ?pre @ RestoreWireGuardInterface # ?post"
      by simp
    have a: "RestoreWireGuardInterface \<notin> set ?pre" using E by simp
    have b: "RestoreWireGuardInterface \<notin> set ?post" using H Run_events by simp
    have c: "startedTasks ?pre = []" using t0 by (simp add: startedTasks_append)
    have d: "\<forall>a. ServerRun a \<notin> set ?pre" using E by simp
    from eq a b c d show ?thesis by blast
  qed
  from 1 2 3 4 5 6 show ?thesis by blast
qed

theorem restore_once_before_Run_witness:
  "fst (Setup zeroServer sampleEnv) = None \<and>
   count_list (snd (snd (Setup zeroServer sampleEnv))) RestoreWireGuardInterface = 1 \<and>
   startedTasks (snd (snd (Setup zeroServer sampleEnv))) = [] \<and>
   startedTasks (snd (Run (fst (snd (Setup zeroServer sampleEnv))) None))
     = [LdapGroupWatcher, LdapAttributeSync]"
proof -
  have ok: "fst (Setup zeroServer sampleEnv) = None"
    by (simp add: setup_defs sample_defs)
  have run: "startedTasks (snd (Run (fst (snd (Setup zeroServer sampleEnv))) None))
     = [LdapGroupWatcher, LdapAttributeSync]"
    by (simp add: setup_defs sample_defs Run_def syncLdapStatus_def)
  from restore_once_before_Run [of zeroServer sampleEnv zeroServer None] ok run
  show ?thesis by simp
qed

section \<open>The background tasks\<close>

text \<open>
  C4: an iteration of the refresh loop in which the cache updater returns an error only
  logs a warning, and the loop goes on: after any earlier iterations the failing one
  consists of the sleep of \<open>CacheRefreshDuration\<close>, the update, the warning and the debug
  line, and is followed by the same loop on the remaining iterations. Every iteration
  makes its update, and every sleep is \<open>CacheRefreshDuration\<close> long, whatever failed.
\<close>

theorem ldapGroupWatcher_error_continues:
  "ldapGroupWatcher (rs @ Some m # rs') =
     ldapGroupWatcher rs
     @ [Sleep CacheRefreshDuration, LdapCacheUpdate True True,
        Logf WarnLevel ''Failed to update ldap group cache: %v'' [m],
        Logf DebugLevel ''Refreshed LDAP permissions!'' []]
     @ ldapGroupWatcher rs' \<and>
   count_list (ldapGroupWatcher (rs @ Some m # rs')) (LdapCacheUpdate True True)
     = length rs + 1 + length rs' \<and>
   sleeps (ldapGroupWatcher (rs @ Some m # rs'))
     = replicate (length rs + 1 + length rs') CacheRefreshDuration"
  using ldapGroupWatcher_updates [of "rs @ Some m # rs'"]
    ldapGroupWatcher_sleeps [of "rs @ Some m # rs'"]
  by (simp add: ldapGroupWatcher_append)

text \<open>
  C6, as the claim states it, fails: when the LDAP user cache reports an error at startup,
  \<open>Setup\<close> succeeds with LDAP disabled and \<open>Run\<close> starts no background task; when LDAP
  works and \<open>SyncLdapStatus\<close> is off, \<open>Run\<close> starts one.
\<close>

theorem Run_two_tasks_counterexample:
  "fst (Setup zeroServer (sampleEnv\<lparr>ldapLastError := Some ''connection refused''\<rparr>)) = None \<and>
   startedTasks (snd (Run (fst (snd (Setup zeroServer
       (sampleEnv\<lparr>ldapLastError := Some ''connection refused''\<rparr>)))) None)) = [] \<and>
   length (startedTasks (snd (Run (fst (snd (Setup zeroServer
       (sampleEnv\<lparr>ldapLastError := Some ''connection refused''\<rparr>)))) None))) \<noteq> 2 \<and>
   fst (Setup zeroServer (sampleEnv\<lparr>newConfig := sampleConfig\<lparr>SyncLdapStatus := False\<rparr>\<rparr>))
     = None \<and>
   startedTasks (snd (Run (fst (snd (Setup zeroServer
       (sampleEnv\<lparr>newConfig := sampleConfig\<lparr>SyncLdapStatus := False\<rparr>\<rparr>)))) None))
     = [LdapGroupWatcher]"
  by (simp add: setup_defs sample_defs Run_def syncLdapStatus_def)

text \<open>
  C6, amended: \<open>Run\<close> starts at most two periodic background tasks: the directory-cache
  refresher when LDAP is not disabled, and the attribute synchronizer when LDAP is not
  disabled and \<open>SyncLdapStatus\<close> is configured; so two tasks in that case, one when
  \<open>SyncLdapStatus\<close> is off and none when LDAP is disabled. In each task every iteration,
  wherever it stands among the others and whatever it returns, is first the sleep of
  the fixed interval \<open>CacheRefreshDuration\<close> of five minutes, then the call, then the
  log lines, and is followed by the same loop on the remaining iterations: no loop has
  an exit.
\<close>

theorem Run_started_tasks:
  assumes "config s = Some cfg"
  shows "startedTasks (snd (Run s r)) =
       (if ldapDisabled s then []
        else if SyncLdapStatus cfg then [LdapGroupWatcher, LdapAttributeSync]
        else [LdapGroupWatcher]) \<and>
     ldapGroupWatcher (xs @ x # ys) =
       ldapGroupWatcher xs
       @ [Sleep CacheRefreshDuration, LdapCacheUpdate True True]
       @ (case x of
            Some m \<Rightarrow> [Logf WarnLevel ''Failed to update ldap group cache: %v'' [m]]
          | None \<Rightarrow> [])
       @ [Logf DebugLevel ''Refreshed LDAP permissions!'' []]
       @ ldapGroupWatcher ys \<and>
     ldapAttributeSync (xs @ x # ys) =
       ldapAttributeSync xs
       @ [Sleep CacheRefreshDuration, SyncLdapAttributesWithWireGuard]
       @ (case x of
            Some m \<Rightarrow> [Logf WarnLevel ''Failed to synchronize ldap attributes: %v'' [m]]
          | None \<Rightarrow> [])
       @ [Logf DebugLevel ''Synced LDAP attributes!'' []]
       @ ldapAttributeSync ys \<and>
     sleeps (ldapGroupWatcher rs) = replicate (length rs) CacheRefreshDuration \<and>
     sleeps (ldapAttributeSync rs) = replicate (length rs) CacheRefreshDuration \<and>
     count_list (ldapGroupWatcher rs) (LdapCacheUpdate True True) = length rs \<and>
     count_list (ldapAttributeSync rs) SyncLdapAttributesWithWireGuard = length rs \<and>
     CacheRefreshDuration = 300000000000"
proof -
  have tasks: "startedTasks (snd (Run s r)) =
       (if ldapDisabled s then []
        else if SyncLdapStatus cfg then [LdapGroupWatcher, LdapAttributeSync]
        else [LdapGroupWatcher])"
    using assms
    by (cases "server s"; cases r)
       (simp_all add: Run_def syncLdapStatus_def startedTasks_append)
  have watcher: "ldapGroupWatcher (xs @ x # ys) =
       ldapGroupWatcher xs
       @ [Sleep CacheRefreshDuration, LdapCacheUpdate True True]
       @ (case x of
            Some m \<Rightarrow> [Logf WarnLevel ''Failed to update ldap group cache: %v'' [m]]
          | None \<Rightarrow> [])
       @ [Logf DebugLevel ''Refreshed LDAP permissions!'' []]
       @ ldapGroupWatcher ys"
    by (simp add: ldapGroupWatcher_append)
  have sync: "ldapAttributeSync (xs @ x # ys) =
       ldapAttributeSync xs
       @ [Sleep CacheRefreshDuration, SyncLdapAttributesWithWireGuard]
       @ (case x of
            Some m \<Rightarrow> [Logf WarnLevel ''Failed to synchronize ldap attributes: %v'' [m]]
          | None \<Rightarrow> [])
       @ [Logf DebugLevel ''Synced LDAP attributes!'' []]
       @ ldapAttributeSync ys"
    by (simp add: ldapAttributeSync_append)
  have dur: "CacheRefreshDuration = 300000000000"
    by (simp add: CacheRefreshDuration_def Minute_def)
  from tasks watcher sync dur show ?thesis
    by (simp only: ldapGroupWatcher_sleeps ldapAttributeSync_sleeps
        ldapGroupWatcher_updates ldapAttributeSync_syncs simp_thms)
qed

theorem Run_started_tasks_witness:
  "config (fst (snd (Setup zeroServer sampleEnv))) = Some sampleConfig \<and>
   startedTasks (snd (Run (fst (snd (Setup zeroServer sampleEnv))) None))
     = [LdapGroupWatcher, LdapAttributeSync] \<and>
   ldapAttributeSync [None, Some ''timeout'', None] =
     [Sleep CacheRefreshDuration, SyncLdapAttributesWithWireGuard,
      Logf DebugLevel ''Synced LDAP attributes!'' [],
      Sleep CacheRefreshDuration, SyncLdapAttributesWithWireGuard,
      Logf WarnLevel ''Failed to synchronize ldap attributes: %v'' [''timeout''],
      Logf DebugLevel ''Synced LDAP attributes!'' [],
      Sleep CacheRefreshDuration, SyncLdapAttributesWithWireGuard,
      Logf DebugLevel ''Synced LDAP attributes!'' []] \<and>
   sleeps (ldapGroupWatcher [None, Some ''timeout'', None])
     = [CacheRefreshDuration, CacheRefreshDuration, CacheRefreshDuration]"
proof -
  have cfg: "config (fst (snd (Setup zeroServer sampleEnv))) = Some sampleConfig"
    by (simp add: setup_defs sample_defs)
  have en: "\<not> ldapDisabled (fst (snd (Setup zeroServer sampleEnv)))"
    by (simp add: setup_defs sample_defs)
  have sy: "SyncLdapStatus sampleConfig"
    by (simp add: sampleConfig_def)
  from Run_started_tasks [OF cfg, of None "[None]" "Some ''timeout''" "[None]"
      "[None, Some ''timeout'', None]"] cfg en sy
  show ?thesis by (simp add: numeral_3_eq_3)
qed

section \<open>Session operations\<close>

text \<open>
  C2, as the claim states it, fails: when the store refuses the save, \<open>getSessionData\<close>
  on a new session returns the default record and logs the failure, and the store
  holds nothing for the session.
\<close>

theorem getSessionData_persist_counterexample:
  "getSessionData (freshContext :: unit Context) (Some ''store is down'') =
     Inr (defaultSession,
       freshContext\<lparr>Values := (Values freshContext)(SessionIdentifier \<mapsto> VSessionData defaultSession),
         written := True,
         calls := [CallGet SessionIdentifier, CallSet SessionIdentifier, CallSave],
         logged := [(ErrorLevel, ''Failed to store session: store is down'')]\<rparr>) \<and>
   StoredValues
     (freshContext\<lparr>Values := (Values freshContext)(SessionIdentifier \<mapsto> VSessionData defaultSession),
         written := True,
         calls := [CallGet SessionIdentifier, CallSet SessionIdentifier, CallSave],
         logged := [(ErrorLevel, ''Failed to store session: store is down'')]\<rparr>)
     SessionIdentifier = None"
  by (simp add: getSessionData_def sess_defs freshContext_def defaultSession_def Let_def)

text \<open>
  C2, amended: on a session with no value under \<open>SessionIdentifier\<close>, \<open>getSessionData\<close>
  returns the default record: sorted by \<open>mail\<close>, ascending, logged out, not admin, every
  other field empty. It sets this record in the session and saves the session in the
  same call. When the store accepts the save it holds the session with the default;
  when the store refuses, the failure is logged and the store is as before. Either
  way a second call returns the identical record, on the same session object and,
  for a session of which the store held no record either, on the session as a later
  request reads it from the store.
\<close>

theorem getSessionData_default:
  assumes "Values c SessionIdentifier = None"
  shows "\<exists>d c'. getSessionData c r = Inr (d, c') \<and>
     SortedBy d = ''mail'' \<and> SortDirection d = ''asc'' \<and> \<not> LoggedIn d \<and> \<not> IsAdmin d \<and>
     UID d = '''' \<and> UserName d = '''' \<and> Firstname d = '''' \<and> Lastname d = '''' \<and>
     Email d = '''' \<and> Search d = '''' \<and> AlertData d = '''' \<and> AlertType d = '''' \<and>
     FormData d = None \<and>
     Values c' = (Values c)(SessionIdentifier \<mapsto> VSessionData d) \<and>
     calls c' = calls c @ [CallGet SessionIdentifier, CallSet SessionIdentifier, CallSave] \<and>
     StoredValues c' =
       (case r of
          None \<Rightarrow> (Values c)(SessionIdentifier \<mapsto> VSessionData d)
        | Some m \<Rightarrow> StoredValues c) \<and>
     logged c' =
       logged c @ (case r of None \<Rightarrow> []
                   | Some m \<Rightarrow> [(ErrorLevel, ''Failed to store session: '' @ m)]) \<and>
     (\<forall>r'. \<exists>c''. getSessionData c' r' = Inr (d, c'')) \<and>
     (StoredValues c SessionIdentifier = None \<longrightarrow>
        (\<forall>r'. \<exists>c''. getSessionData (reloadSession c') r' = Inr (d, c'')))"
  using assms
  by (cases r)
     (auto simp add: getSessionData_def reloadSession_def sess_defs Let_def
        split: option.splits)

theorem getSessionData_default_witness:
  "Values (freshContext :: unit Context) SessionIdentifier = None \<and>
   StoredValues (freshContext :: unit Context) SessionIdentifier = None \<and>
   (\<exists>d c' c'' c'''. getSessionData (freshContext :: unit Context) None = Inr (d, c') \<and>
      SortedBy d = ''mail'' \<and> SortDirection d = ''asc'' \<and>
      StoredValues c' SessionIdentifier = Some (VSessionData d) \<and>
      getSessionData c' (Some ''store is down'') = Inr (d, c'') \<and>
      getSessionData (reloadSession c') None = Inr (d, c'''))"
proof -
  have h: "Values (freshContext :: unit Context) SessionIdentifier = None"
    by (simp add: freshContext_def)
  have st: "StoredValues (freshContext :: unit Context) SessionIdentifier = None"
    by (simp add: freshContext_def)
  from getSessionData_default [OF h, of None] obtain d c' where
    1: "getSessionData (freshContext :: unit Context) None = Inr (d, c')" and
    2: "SortedBy d = ''mail''" "SortDirection d = ''asc''" and
    3: "StoredValues c' = (Values freshContext)(SessionIdentifier \<mapsto> VSessionData d)" and
    4: "\<forall>r'. \<exists>c''. getSessionData c' r' = Inr (d, c'')" and
    5: "StoredValues (freshContext :: unit Context) SessionIdentifier = None \<longrightarrow>
        (\<forall>r'. \<exists>c''. getSessionData (reloadSession c') r' = Inr (d, c''))"
    by auto
  from 3 have 6: "StoredValues c' SessionIdentifier = Some (VSessionData d)"
    by simp
  from 4 obtain c'' where 7: "getSessionData c' (Some ''store is down'') = Inr (d, c'')"
    by blast
  from 5 st obtain c''' where 8: "getSessionData (reloadSession c') None = Inr (d, c''')"
    by blast
  from h st 1 2 6 7 8 show ?thesis
    by blast
qed

text \<open>
  C3, as the claim states it, fails: an alert is set and saved; \<open>getFlashes\<close> returns it
  while the store refuses the save, which is only logged, so the store keeps the
  alert; on the session as the next request reads it from the store, \<open>getFlashes\<close>
  returns the same alert again.
\<close>

theorem getFlashes_repeat_counterexample:
  "getFlashes (setFlashMessage (freshContext :: unit Context) ''peer saved'' ''success'' None)
     (Some ''store is down'') =
     Inr ([savedAlert],
       freshContext\<lparr>written := True, StoredFlashes := [VFlashData savedAlert],
         calls := [CallAddFlash, CallSave, CallFlashes, CallSave],
         logged := [(ErrorLevel,
           ''Failed to store session after setting flash: store is down'')]\<rparr>) \<and>
   getFlashes
     (reloadSession
       (freshContext\<lparr>written := True, StoredFlashes := [VFlashData savedAlert],
         calls := [CallAddFlash, CallSave, CallFlashes, CallSave],
         logged := [(ErrorLevel,
           ''Failed to store session after setting flash: store is down'')]\<rparr>))
     None =
     Inr ([savedAlert],
       freshContext\<lparr>
         calls := [CallAddFlash, CallSave, CallFlashes, CallSave, CallFlashes, CallSave],
         logged := [(ErrorLevel,
           ''Failed to store session after setting flash: store is down'')]\<rparr>)"
  by (simp add: getFlashes_def setFlashMessage_def reloadSession_def sess_defs
      freshContext_def savedAlert_def)

text \<open>
  C3, amended: when \<open>getFlashes\<close> returns a non-empty sequence of alerts, these are the
  alerts the session held, the session object holds none any more, and the next call
  of \<open>getFlashes\<close> on that session object returns the empty sequence. \<open>getFlashes\<close>
  saves the session in the same call: when the store accepts the save it holds no
  alert either, and \<open>getFlashes\<close> on the session as a later request reads it from the
  store returns the empty sequence; when the store refuses, the failure is logged
  and the store keeps what it held.
\<close>

theorem getFlashes_one_shot:
  assumes "getFlashes c r = Inr (fs, c')" and "fs \<noteq> []"
  shows "assertFlashData (FlashValues c) = Inr fs \<and>
     FlashValues c' = [] \<and>
     calls c' = calls c @ [CallFlashes, CallSave] \<and>
     StoredFlashes c' = (case r of None \<Rightarrow> [] | Some m \<Rightarrow> StoredFlashes c) \<and>
     logged c' =
       logged c @ (case r of None \<Rightarrow> []
                   | Some m \<Rightarrow> [(ErrorLevel,
                       ''Failed to store session after setting flash: '' @ m)]) \<and>
     (\<exists>c''. getFlashes c' r' = Inr ([], c'')) \<and>
     (r = None \<longrightarrow> (\<exists>c''. getFlashes (reloadSession c') r' = Inr ([], c'')))"
  using assms
  by (cases r; cases r')
     (auto simp add: getFlashes_def reloadSession_def sess_defs split: sum.splits)

theorem getFlashes_one_shot_witness:
  "\<exists>c' c'' c'''.
     getFlashes (setFlashMessage (freshContext :: unit Context) ''peer saved'' ''success'' None)
       None = Inr ([savedAlert], c') \<and>
     [savedAlert] \<noteq> [] \<and>
     StoredFlashes c' = [] \<and>
     getFlashes c' None = Inr ([], c'') \<and>
     getFlashes (reloadSession c') None = Inr ([], c''')"
proof -
  let ?c = "setFlashMessage (freshContext :: unit Context) ''peer saved'' ''success'' None"
  have "\<exists>c'. getFlashes ?c None = Inr ([savedAlert], c')"
    by (simp add: getFlashes_def setFlashMessage_def freshContext_def sess_defs
        savedAlert_def)
  then obtain c' where h: "getFlashes ?c None = Inr ([savedAlert], c')"
    by blast
  have ne: "[savedAlert] \<noteq> []"
    by simp
  from getFlashes_one_shot [OF h ne, of None] h ne show ?thesis
    by auto
qed

text \<open>
  C7: \<open>updateSessionData\<close> sets the record in the session, \<open>destroySessionData\<close> deletes
  it from the session, and each then saves the session and returns exactly the answer
  of the store to that save. When the result is \<open>nil\<close> the store holds the session as
  changed; when the result is an error the store is as it was before the call and
  the error of this save is logged in one line. The result does not depend on what
  the session or the log held before, and nothing else records the failure.
\<close>

theorem session_write_error:
  "fst (updateSessionData c d r) = r \<and>
   calls (snd (updateSessionData c d r)) = calls c @ [CallSet SessionIdentifier, CallSave] \<and>
   Values (snd (updateSessionData c d r)) = (Values c)(SessionIdentifier \<mapsto> VSessionData d) \<and>
   StoredValues (snd (updateSessionData c d r)) =
     (case r of
        None \<Rightarrow> (Values c)(SessionIdentifier \<mapsto> VSessionData d)
      | Some m \<Rightarrow> StoredValues c) \<and>
   written (snd (updateSessionData c d r)) = (r \<noteq> None) \<and>
   logged (snd (updateSessionData c d r)) =
     logged c @ (case r of None \<Rightarrow> []
                 | Some m \<Rightarrow> [(ErrorLevel, ''Failed to store session: '' @ m)]) \<and>
   fst (destroySessionData c r) = r \<and>
   calls (snd (destroySessionData c r)) = calls c @ [CallDelete SessionIdentifier, CallSave] \<and>
   Values (snd (destroySessionData c r)) = (Values c)(SessionIdentifier := None) \<and>
   StoredValues (snd (destroySessionData c r)) =
     (case r of
        None \<Rightarrow> (Values c)(SessionIdentifier := None)
      | Some m \<Rightarrow> StoredValues c) \<and>
   written (snd (destroySessionData c r)) = (r \<noteq> None) \<and>
   logged (snd (destroySessionData c r)) =
     logged c @ (case r of None \<Rightarrow> []
                 | Some m \<Rightarrow> [(ErrorLevel, ''Failed to destroy session: '' @ m)])"
  by (cases r) (simp_all add: updateSessionData_def destroySessionData_def sess_defs)

text \<open>
  C8: after an \<open>updateSessionData\<close> that stored the record \<open>d\<close> without error, the store
  holds \<open>d\<close> and \<open>getSessionData\<close> on the session returns exactly \<open>d\<close>, by the branch of
  an existing record: its only call on the session is the \<open>Get\<close>.
\<close>

theorem update_get_roundtrip:
  assumes "updateSessionData c d r = (None, c')"
  shows "getSessionData c' r' = Inr (d, c'\<lparr>calls := calls c' @ [CallGet SessionIdentifier]\<rparr>) \<and>
     StoredValues c' SessionIdentifier = Some (VSessionData d)"
  using assms
  by (cases r) (auto simp add: updateSessionData_def getSessionData_def sess_defs)

theorem update_get_roundtrip_witness:
  "\<exists>c'. updateSessionData freshContext adminSession None = (None, c') \<and>
     getSessionData c' None
       = Inr (adminSession, c'\<lparr>calls := calls c' @ [CallGet SessionIdentifier]\<rparr>)"
proof -
  have "\<exists>c'. updateSessionData freshContext adminSession None = (None, c')"
    by (simp add: updateSessionData_def sess_defs)
  then obtain c' where h: "updateSessionData freshContext adminSession None = (None, c')"
    by blast
  from update_get_roundtrip [OF h, of None] h show ?thesis
    by blast
qed

text \<open>
  C9: on a session that holds a \<open>SessionData\<close> record under \<open>SessionIdentifier\<close>,
  \<open>getSessionData\<close> returns that record, and the session, the store and the log are as
  before: the one call made on the session is the \<open>Get\<close>, neither \<open>Set\<close> nor \<open>Save\<close>.
\<close>

theorem getSessionData_existing:
  assumes "Values c SessionIdentifier = Some (VSessionData d)"
  shows "getSessionData c r = Inr (d, c\<lparr>calls := calls c @ [CallGet SessionIdentifier]\<rparr>)"
  using assms by (simp add: getSessionData_def sess_defs)

theorem getSessionData_existing_witness:
  "Values (freshContext\<lparr>Values := [SessionIdentifier \<mapsto> VSessionData adminSession]\<rparr>)
     SessionIdentifier = Some (VSessionData adminSession) \<and>
   getSessionData (freshContext\<lparr>Values := [SessionIdentifier \<mapsto> VSessionData adminSession]\<rparr>)
     (Some ''store is down'')
     = Inr (adminSession,
         freshContext\<lparr>Values := [SessionIdentifier \<mapsto> VSessionData adminSession],
           calls := [CallGet SessionIdentifier]\<rparr>)"
proof -
  let ?c = "freshContext\<lparr>Values := [SessionIdentifier \<mapsto> VSessionData adminSession]\<rparr>"
  have h: "Values ?c SessionIdentifier = Some (VSessionData adminSession)"
    by simp
  have c: "calls ?c = []"
    by (simp add: freshContext_def)
  from getSessionData_existing [OF h, of "Some ''store is down''"] h c show ?thesis
    by simp
qed

section \<open>The sort icon\<close>


text \<open>
  C10: \<open>GetSortIcon\<close> returns a value for every session record and every field name:
  \<open>fa-sort\<close> when the record is not sorted by that field; otherwise
  \<open>fa-sort-alpha-down\<close> when the sort direction is \<open>asc\<close> and \<open>fa-sort-alpha-up\<close> for
  every other sort direction.
\<close>

theorem GetSortIcon_cases:
  "(SortedBy s \<noteq> f \<longrightarrow> GetSortIcon s f = ''fa-sort'') \<and>
   (SortedBy s = f \<and> SortDirection s = ''asc'' \<longrightarrow> GetSortIcon s f = ''fa-sort-alpha-down'') \<and>
   (SortedBy s = f \<and> SortDirection s \<noteq> ''asc'' \<longrightarrow> GetSortIcon s f = ''fa-sort-alpha-up'')"
  by (simp add: GetSortIcon_def)

theorem GetSortIcon_cases_witness:
  "GetSortIcon (\<lparr>LoggedIn = False, IsAdmin = False, UID = '''', UserName = '''',
        Firstname = '''', Lastname = '''', Email = '''', SortedBy = ''mail'',
        SortDirection = ''asc'', Search = '''', AlertData = '''', AlertType = '''',
        FormData = (None :: unit option)\<rparr>) ''name'' = ''fa-sort'' \<and>
   GetSortIcon (\<lparr>LoggedIn = False, IsAdmin = False, UID = '''', UserName = '''',
        Firstname = '''', Lastname = '''', Email = '''', SortedBy = ''mail'',
        SortDirection = ''asc'', Search = '''', AlertData = '''', AlertType = '''',
        FormData = (None :: unit option)\<rparr>) ''mail'' = ''fa-sort-alpha-down'' \<and>
   GetSortIcon (\<lparr>LoggedIn = False, IsAdmin = False, UID = '''', UserName = '''',
        Firstname = '''', Lastname = '''', Email = '''', SortedBy = ''mail'',
        SortDirection = ''desc'', Search = '''', AlertData = '''', AlertType = '''',
        FormData = (None :: unit option)\<rparr>) ''mail'' = ''fa-sort-alpha-up''"
  using
    GetSortIcon_cases [of "\<lparr>LoggedIn = False, IsAdmin = False, UID = '''', UserName = '''',
        Firstname = '''', Lastname = '''', Email = '''', SortedBy = ''mail'',
        SortDirection = ''asc'', Search = '''', AlertData = '''', AlertType = '''',
        FormData = (None :: unit option)\<rparr>" "''name''"]
    GetSortIcon_cases [of "\<lparr>LoggedIn = False, IsAdmin = False, UID = '''', UserName = '''',
        Firstname = '''', Lastname = '''', Email = '''', SortedBy = ''mail'',
        SortDirection = ''asc'', Search = '''', AlertData = '''', AlertType = '''',
        FormData = (None :: unit option)\<rparr>" "''mail''"]
    GetSortIcon_cases [of "\<lparr>LoggedIn = False, IsAdmin = False, UID = '''', UserName = '''',
        Firstname = '''', Lastname = '''', Email = '''', SortedBy = ''mail'',
        SortDirection = ''desc'', Search = '''', AlertData = '''', AlertType = '''',
        FormData = (None :: unit option)\<rparr>" "''mail''"]
  by simp

end
